theory Spec2Isabelle
  imports Complex_Main
begin

section \<open>Python values\<close>

text \<open>
  The values that travel through the wrapper are JSON-shaped Python values. A dict keeps
  its insertion order, so it is an association list. A finite float is carried as the
  number it denotes: the wrapper never computes with it, it only places it in the
  payload. The three floats that are not numbers are values of their own; they reach the
  wrapper only in a decoded response.
\<close>

datatype nonfinite = NaN | Infinity | NegInfinity

datatype pyval =
    PNone
  | PBool bool
  | PInt int
  | PFloat real
  | PFloatNonFinite nonfinite
  | PStr string
  | PList "pyval list"
  | PDict "(string \<times> pyval) list"

text \<open>\<^verbatim>\<open>d[k] = v\<close>: an existing key keeps its place, a new key goes to the end.\<close>

fun setitem :: "(string \<times> pyval) list \<Rightarrow> string \<Rightarrow> pyval \<Rightarrow> (string \<times> pyval) list" where
  "setitem [] k v = [(k, v)]"
| "setitem ((k', v') # d) k v = (if k' = k then (k', v) # d else (k', v') # setitem d k v)"

definition keys :: "(string \<times> pyval) list \<Rightarrow> string list" where
  "keys d = map fst d"

definition getitem :: "(string \<times> pyval) list \<Rightarrow> string \<Rightarrow> pyval option" where
  "getitem d k = map_of d k"

text \<open>Truthiness of an \<^verbatim>\<open>Optional[str]\<close> and of an \<^verbatim>\<open>Optional[int]\<close>.\<close>

fun truthy_str :: "string option \<Rightarrow> bool" where
  "truthy_str None = False"
| "truthy_str (Some s) = (s \<noteq> [])"

fun truthy_int :: "int option \<Rightarrow> bool" where
  "truthy_int None = False"
| "truthy_int (Some n) = (n \<noteq> 0)"

text \<open>\<^verbatim>\<open>a or b\<close>: the first operand when it is truthy, the second otherwise.\<close>

definition py_or :: "string option \<Rightarrow> string option \<Rightarrow> string option" where
  "py_or a b = (if truthy_str a then a else b)"

text \<open>\<^verbatim>\<open>os.getenv(name)\<close>: the process environment is a map from names to values.\<close>

type_synonym environ = "string \<rightharpoonup> string"

definition os_getenv :: "environ \<Rightarrow> string \<Rightarrow> string option" where
  "os_getenv env name = env name"

section \<open>Exceptions\<close>

text \<open>
  The exception classes of the \<^verbatim>\<open>requests\<close> library that matter here, and three
  classes outside its hierarchy: \<^verbatim>\<open>json.JSONDecodeError\<close>, the decoder's own error and a
  \<^verbatim>\<open>ValueError\<close>; \<^verbatim>\<open>RecursionError\<close>; and \<^verbatim>\<open>KeyboardInterrupt\<close>.
  \<^verbatim>\<open>JSONDecodeError\<close> below is \<^verbatim>\<open>requests.exceptions.JSONDecodeError\<close>.
  \<^verbatim>\<open>except requests.exceptions.RequestException\<close> catches the instances of
  \<^verbatim>\<open>RequestException\<close> and of its subclasses, nothing else.
\<close>

datatype exc_class =
    RequestException
  | ConnectionError
  | Timeout
  | TooManyRedirects
  | HTTPError
  | InvalidJSONError
  | JSONDecodeError
  | Decoder_JSONDecodeError
  | RecursionError
  | KeyboardInterrupt

datatype raised = Raised exc_class string

fun exc_str :: "raised \<Rightarrow> string" where
  "exc_str (Raised c msg) = msg"

fun subclass_of_RequestException :: "exc_class \<Rightarrow> bool" where
  "subclass_of_RequestException RequestException = True"
| "subclass_of_RequestException ConnectionError = True"
| "subclass_of_RequestException Timeout = True"
| "subclass_of_RequestException TooManyRedirects = True"
| "subclass_of_RequestException HTTPError = True"
| "subclass_of_RequestException InvalidJSONError = True"
| "subclass_of_RequestException JSONDecodeError = True"
| "subclass_of_RequestException Decoder_JSONDecodeError = False"
| "subclass_of_RequestException RecursionError = False"
| "subclass_of_RequestException KeyboardInterrupt = False"

fun is_RequestException :: "raised \<Rightarrow> bool" where
  "is_RequestException (Raised c msg) = subclass_of_RequestException c"

text \<open>
  What a caller of the wrapper can see raised: the \<^verbatim>\<open>ValueError\<close> of the constructor,
  the generic \<^verbatim>\<open>Exception\<close> of the two operations, or a library exception that the
  \<^verbatim>\<open>except\<close> clause did not catch.
\<close>

datatype py_error =
    ValueError string
  | Exception string
  | Uncaught raised

section \<open>The HTTP library\<close>

text \<open>
  The \<^verbatim>\<open>requests\<close> library is not part of the repository. It is modelled after its
  documented behaviour. \<^verbatim>\<open>raise_for_status\<close> raises \<^verbatim>\<open>HTTPError\<close> for a status from 400
  to 599 and returns otherwise. \<^verbatim>\<open>json\<close> hands the body to the decoder \<^verbatim>\<open>json.loads\<close>,
  which does one of three things:
  \<^item> it returns a value: for a JSON text, and also for a body that is not a JSON text
    but that the decoder accepts, such as \<^verbatim>\<open>NaN\<close>, \<^verbatim>\<open>Infinity\<close> and \<^verbatim>\<open>-Infinity\<close>;
  \<^item> it raises \<^verbatim>\<open>json.JSONDecodeError\<close>: the body is not a JSON text and is rejected;
  \<^item> it raises \<^verbatim>\<open>RecursionError\<close>: the body is nested too deeply, valid or not.

  From version 2.27 on, \<^verbatim>\<open>json\<close> catches the decoder's \<^verbatim>\<open>JSONDecodeError\<close> and raises
  \<^verbatim>\<open>requests.exceptions.JSONDecodeError\<close> with the same text in its place; before, the
  decoder's error passes through. A \<^verbatim>\<open>RecursionError\<close> passes through in every version.
  The repository does not pin a version, so the version is part of the response object
  the library builds.
\<close>

datatype loads_result =
    Loaded pyval
  | DecodeFailed string
  | RecursionFailed string

datatype requests_version = Before_2_27 | From_2_27

record http_request =
  req_method :: string
  req_url :: string
  req_headers :: "(string \<times> string) list"
  req_json :: pyval

record response =
  status_code :: int
  reason :: string
  resp_url :: string
  valid_json :: bool
    \<comment> \<open>whether the body is a JSON text\<close>
  json_loads :: loads_result
    \<comment> \<open>what the decoder does with the body\<close>
  lib_version :: requests_version

text \<open>\<^verbatim>\<open>str\<close> of an integer, as the f-strings of the library print the status code.\<close>

definition digit_char :: "nat \<Rightarrow> char" where
  "digit_char d = ''0123456789'' ! d"

function str_nat :: "nat \<Rightarrow> string" where
  "str_nat n = (if n < 10 then [digit_char n] else str_nat (n div 10) @ [digit_char (n mod 10)])"
  by pat_completeness auto
termination
  by (relation "measure (\<lambda>n. n)") auto

declare str_nat.simps [simp del]

definition str_int :: "int \<Rightarrow> string" where
  "str_int i = (if i < 0 then CHR ''-'' # str_nat (nat (- i)) else str_nat (nat i))"

definition raise_for_status :: "response \<Rightarrow> raised option" where
  "raise_for_status r =
     (if 400 \<le> status_code r \<and> status_code r < 500 then
        Some (Raised HTTPError
          (str_int (status_code r) @ '' Client Error: '' @ reason r @ '' for url: '' @ resp_url r))
      else if 500 \<le> status_code r \<and> status_code r < 600 then
        Some (Raised HTTPError
          (str_int (status_code r) @ '' Server Error: '' @ reason r @ '' for url: '' @ resp_url r))
      else None)"

definition response_json :: "response \<Rightarrow> raised + pyval" where
  "response_json r =
     (case json_loads r of
        Loaded v \<Rightarrow> Inr v
      | DecodeFailed msg \<Rightarrow>
          (case lib_version r of
             From_2_27 \<Rightarrow> Inl (Raised JSONDecodeError msg)
           | Before_2_27 \<Rightarrow> Inl (Raised Decoder_JSONDecodeError msg))
      | RecursionFailed msg \<Rightarrow> Inl (Raised RecursionError msg))"

text \<open>
  The network answers a request with a response or with an exception; its answer may
  depend on everything sent before. The state of a run is the client object together
  with the log of the requests made so far.
\<close>

type_synonym network = "http_request list \<Rightarrow> http_request \<Rightarrow> raised + response"

section \<open>The client\<close>

record OpenAIWrapper =
  api_key :: string
  base_url :: string
  headers :: "(string \<times> string) list"

record state =
  wrapper :: OpenAIWrapper
  requests_sent :: "http_request list"

definition requests_post ::
  "network \<Rightarrow> string \<Rightarrow> (string \<times> string) list \<Rightarrow> pyval \<Rightarrow> state \<Rightarrow> (raised + response) \<times> state" where
  "requests_post net u hs js s =
     (let q = \<lparr>req_method = ''POST'', req_url = u, req_headers = hs, req_json = js\<rparr>
      in (net (requests_sent s) q, s\<lparr>requests_sent := requests_sent s @ [q]\<rparr>))"

definition missing_key_message :: string where
  "missing_key_message =
     ''API key must be provided either directly or through OPENAI_API_KEY environment variable''"

text \<open>
  \<^verbatim>\<open>__init__\<close>: \<^verbatim>\<open>not self.api_key\<close> holds for \<^verbatim>\<open>None\<close> and for the empty string.
\<close>

definition OpenAIWrapper_init :: "environ \<Rightarrow> string option \<Rightarrow> py_error + OpenAIWrapper" where
  "OpenAIWrapper_init env key_arg =
     (let k = py_or key_arg (os_getenv env ''OPENAI_API_KEY'')
      in if \<not> truthy_str k then Inl (ValueError missing_key_message)
         else case k of
           None \<Rightarrow> Inl (ValueError missing_key_message)
         | Some key \<Rightarrow>
             Inr \<lparr>api_key = key,
                  base_url = ''https://api.openai.com/v1'',
                  headers = [(''Authorization'', ''Bearer '' @ key),
                             (''Content-Type'', ''application/json'')]\<rparr>)"

text \<open>
  The \<^verbatim>\<open>except requests.exceptions.RequestException as e\<close> clause of both operations:
  a caught exception is replaced by the generic one, any other propagates.
\<close>

definition except_RequestException :: "raised \<Rightarrow> py_error" where
  "except_RequestException e =
     (if is_RequestException e then Exception (''API request failed: '' @ exc_str e)
      else Uncaught e)"

definition default_model :: string where
  "default_model = ''gpt-3.5-turbo''"

definition default_temperature :: real where
  "default_temperature = 0.7"

definition default_max_tokens :: "int option" where
  "default_max_tokens = None"

text \<open>The payload of \<^verbatim>\<open>chat_completion\<close>, lines 45 to 52.\<close>

definition chat_payload :: "pyval \<Rightarrow> string \<Rightarrow> real \<Rightarrow> int option \<Rightarrow> (string \<times> pyval) list" where
  "chat_payload messages model temperature max_tokens =
     (let payload = [(''model'', PStr model),
                     (''messages'', messages),
                     (''temperature'', PFloat temperature)]
      in if truthy_int max_tokens then
           (case max_tokens of None \<Rightarrow> payload | Some n \<Rightarrow> setitem payload ''max_tokens'' (PInt n))
         else payload)"

definition chat_completion ::
  "network \<Rightarrow> pyval \<Rightarrow> string \<Rightarrow> real \<Rightarrow> int option \<Rightarrow> state \<Rightarrow> (py_error + pyval) \<times> state" where
  "chat_completion net messages model temperature max_tokens s =
     (let endpoint = base_url (wrapper s) @ ''/chat/completions'';
          payload = chat_payload messages model temperature max_tokens;
          (posted, s') = requests_post net endpoint (headers (wrapper s)) (PDict payload) s
      in case posted of
           Inl e \<Rightarrow> (Inl (except_RequestException e), s')
         | Inr resp \<Rightarrow>
             (case raise_for_status resp of
                Some e \<Rightarrow> (Inl (except_RequestException e), s')
              | None \<Rightarrow>
                  (case response_json resp of
                     Inl e \<Rightarrow> (Inl (except_RequestException e), s')
                   | Inr v \<Rightarrow> (Inr v, s'))))"

definition default_size :: string where
  "default_size = ''1024x1024''"

definition default_n :: int where
  "default_n = 1"

definition default_response_format :: string where
  "default_response_format = ''url''"

text \<open>The payload of \<^verbatim>\<open>create_image\<close>, lines 80 to 85.\<close>

definition image_payload :: "string \<Rightarrow> string \<Rightarrow> int \<Rightarrow> string \<Rightarrow> (string \<times> pyval) list" where
  "image_payload prompt size' n response_format =
     [(''prompt'', PStr prompt),
      (''size'', PStr size'),
      (''n'', PInt n),
      (''response_format'', PStr response_format)]"

definition create_image ::
  "network \<Rightarrow> string \<Rightarrow> string \<Rightarrow> int \<Rightarrow> string \<Rightarrow> state \<Rightarrow> (py_error + pyval) \<times> state" where
  "create_image net prompt size' n response_format s =
     (let endpoint = base_url (wrapper s) @ ''/images/generations'';
          payload = image_payload prompt size' n response_format;
          (posted, s') = requests_post net endpoint (headers (wrapper s)) (PDict payload) s
      in case posted of
           Inl e \<Rightarrow> (Inl (except_RequestException e), s')
         | Inr resp \<Rightarrow>
             (case raise_for_status resp of
                Some e \<Rightarrow> (Inl (except_RequestException e), s')
              | None \<Rightarrow>
                  (case response_json resp of
                     Inl e \<Rightarrow> (Inl (except_RequestException e), s')
                   | Inr v \<Rightarrow> (Inr v, s'))))"

section \<open>Notions used in the statements\<close>

text \<open>The requests that a step from \<open>s\<close> to \<open>s'\<close> added to the log.\<close>

definition requests_made :: "state \<Rightarrow> state \<Rightarrow> http_request list" where
  "requests_made s s' = drop (length (requests_sent s)) (requests_sent s')"

text \<open>
  The life of a client object: any sequence of calls of its two operations, each
  starting in the state the previous one left.
\<close>

datatype call =
    ChatCompletion pyval string real "int option"
  | CreateImage string string int string

fun run_call :: "network \<Rightarrow> call \<Rightarrow> state \<Rightarrow> (py_error + pyval) \<times> state" where
  "run_call net (ChatCompletion messages model temperature max_tokens) s =
     chat_completion net messages model temperature max_tokens s"
| "run_call net (CreateImage prompt size' n response_format) s =
     create_image net prompt size' n response_format s"

fun run_calls :: "network \<Rightarrow> call list \<Rightarrow> state \<Rightarrow> state" where
  "run_calls net [] s = s"
| "run_calls net (c # cs) s = run_calls net cs (snd (run_call net c s))"

text \<open>A state right after construction: the new client and an empty log.\<close>

definition fresh :: "OpenAIWrapper \<Rightarrow> state" where
  "fresh w = \<lparr>wrapper = w, requests_sent = []\<rparr>"

text \<open>The request each operation hands to \<^verbatim>\<open>requests.post\<close>, as a value of its own.\<close>

definition chat_request ::
  "OpenAIWrapper \<Rightarrow> pyval \<Rightarrow> string \<Rightarrow> real \<Rightarrow> int option \<Rightarrow> http_request" where
  "chat_request w messages model temperature max_tokens =
     \<lparr>req_method = ''POST'',
      req_url = base_url w @ ''/chat/completions'',
      req_headers = headers w,
      req_json = PDict (chat_payload messages model temperature max_tokens)\<rparr>"

definition image_request ::
  "OpenAIWrapper \<Rightarrow> string \<Rightarrow> string \<Rightarrow> int \<Rightarrow> string \<Rightarrow> http_request" where
  "image_request w prompt size' n response_format =
     \<lparr>req_method = ''POST'',
      req_url = base_url w @ ''/images/generations'',
      req_headers = headers w,
      req_json = PDict (image_payload prompt size' n response_format)\<rparr>"

text \<open>A message of a conversation: a dict with the keys \<^verbatim>\<open>role\<close> and \<^verbatim>\<open>content\<close>.\<close>

definition message :: "string \<Rightarrow> string \<Rightarrow> pyval" where
  "message r c = PDict [(''role'', PStr r), (''content'', PStr c)]"

text \<open>Concrete surroundings for examples: an environment given by a list of bindings,
  a network that gives every request the same answer, and a client with a fixed key.\<close>

definition environ_of :: "(string \<times> string) list \<Rightarrow> environ" where
  "environ_of bs = map_of bs"

definition always :: "raised + response \<Rightarrow> network" where
  "always a = (\<lambda>log q. a)"

definition test_wrapper :: OpenAIWrapper where
  "test_wrapper =
     \<lparr>api_key = ''sk-test'',
      base_url = ''https://api.openai.com/v1'',
      headers = [(''Authorization'', ''Bearer sk-test''), (''Content-Type'', ''application/json'')]\<rparr>"

definition reply_with ::
  "string \<Rightarrow> int \<Rightarrow> string \<Rightarrow> bool \<Rightarrow> loads_result \<Rightarrow> requests_version \<Rightarrow> raised + response" where
  "reply_with u code why valid outcome ver =
     Inr \<lparr>status_code = code, reason = why, resp_url = u,
          valid_json = valid, json_loads = outcome, lib_version = ver\<rparr>"

text \<open>A reply of the current library whose body is the JSON text of a value (\<open>Inr\<close>), or
  is not a JSON text and is rejected by the decoder with a message (\<open>Inl\<close>).\<close>

definition reply :: "string \<Rightarrow> int \<Rightarrow> string \<Rightarrow> string + pyval \<Rightarrow> raised + response" where
  "reply u code why body =
     (case body of
        Inl msg \<Rightarrow> reply_with u code why False (DecodeFailed msg) From_2_27
      | Inr v \<Rightarrow> reply_with u code why True (Loaded v) From_2_27)"

definition chat_url :: string where
  "chat_url = ''https://api.openai.com/v1/chat/completions''"

definition image_url :: string where
  "image_url = ''https://api.openai.com/v1/images/generations''"

section \<open>What a call does to the state and what it returns\<close>


lemma chat_completion_state:
  "snd (chat_completion net messages model temperature max_tokens s) =
     s\<lparr>requests_sent := requests_sent s @ [chat_request (wrapper s) messages model temperature max_tokens]\<rparr>"
  by (simp add: chat_completion_def requests_post_def chat_request_def Let_def
           split: sum.splits option.splits)

lemma create_image_state:
  "snd (create_image net prompt sz n rf s) =
     s\<lparr>requests_sent := requests_sent s @ [image_request (wrapper s) prompt sz n rf]\<rparr>"
  by (simp add: create_image_def requests_post_def image_request_def Let_def
           split: sum.splits option.splits)

lemma chat_completion_result:
  "fst (chat_completion net messages model temperature max_tokens s) =
     (case net (requests_sent s) (chat_request (wrapper s) messages model temperature max_tokens) of
        Inl e \<Rightarrow> Inl (except_RequestException e)
      | Inr resp \<Rightarrow>
          (case raise_for_status resp of
             Some e \<Rightarrow> Inl (except_RequestException e)
           | None \<Rightarrow>
               (case response_json resp of
                  Inl e \<Rightarrow> Inl (except_RequestException e)
                | Inr v \<Rightarrow> Inr v)))"
  by (simp add: chat_completion_def requests_post_def chat_request_def Let_def
           split: sum.splits option.splits)

lemma create_image_result:
  "fst (create_image net prompt sz n rf s) =
     (case net (requests_sent s) (image_request (wrapper s) prompt sz n rf) of
        Inl e \<Rightarrow> Inl (except_RequestException e)
      | Inr resp \<Rightarrow>
          (case raise_for_status resp of
             Some e \<Rightarrow> Inl (except_RequestException e)
           | None \<Rightarrow>
               (case response_json resp of
                  Inl e \<Rightarrow> Inl (except_RequestException e)
                | Inr v \<Rightarrow> Inr v)))"
  by (simp add: create_image_def requests_post_def image_request_def Let_def
           split: sum.splits option.splits)

lemma requests_made_append:
  "requests_made s (s\<lparr>requests_sent := requests_sent s @ qs\<rparr>) = qs"
  by (simp add: requests_made_def)

lemma chat_completion_made:
  "requests_made s (snd (chat_completion net messages model temperature max_tokens s)) =
     [chat_request (wrapper s) messages model temperature max_tokens]"
  by (simp add: chat_completion_state requests_made_append)

lemma create_image_made:
  "requests_made s (snd (create_image net prompt sz n rf s)) =
     [image_request (wrapper s) prompt sz n rf]"
  by (simp add: create_image_state requests_made_append)

lemma chat_payload_None:
  "chat_payload messages model temperature None =
     [(''model'', PStr model), (''messages'', messages), (''temperature'', PFloat temperature)]"
  by (simp add: chat_payload_def)

lemma chat_payload_Some:
  "chat_payload messages model temperature (Some n) =
     (if n = 0 then
        [(''model'', PStr model), (''messages'', messages), (''temperature'', PFloat temperature)]
      else
        [(''model'', PStr model), (''messages'', messages), (''temperature'', PFloat temperature),
         (''max_tokens'', PInt n)])"
  by (simp add: chat_payload_def)

lemma raise_for_status_error:
  "400 \<le> status_code r \<Longrightarrow> status_code r < 600 \<Longrightarrow>
   raise_for_status r =
     Some (Raised HTTPError
       (str_int (status_code r)
        @ (if status_code r < 500 then '' Client Error: '' else '' Server Error: '')
        @ reason r @ '' for url: '' @ resp_url r))"
  by (simp add: raise_for_status_def)


lemma init_Some:
  "k \<noteq> [] \<Longrightarrow>
   OpenAIWrapper_init env (Some k) =
     Inr \<lparr>api_key = k, base_url = ''https://api.openai.com/v1'',
          headers = [(''Authorization'', ''Bearer '' @ k), (''Content-Type'', ''application/json'')]\<rparr>"
  by (simp add: OpenAIWrapper_init_def py_or_def)

lemma init_falsy:
  "\<not> truthy_str a \<Longrightarrow> OpenAIWrapper_init env a = 
     (case env ''OPENAI_API_KEY'' of
        None \<Rightarrow> Inl (ValueError missing_key_message)
      | Some v \<Rightarrow> if v = [] then Inl (ValueError missing_key_message)
          else Inr \<lparr>api_key = v, base_url = ''https://api.openai.com/v1'',
          headers = [(''Authorization'', ''Bearer '' @ v), (''Content-Type'', ''application/json'')]\<rparr>)"
  by (simp add: OpenAIWrapper_init_def py_or_def os_getenv_def split: option.splits)

lemma init_fields:
  "OpenAIWrapper_init env a = Inr w \<Longrightarrow>
   api_key w \<noteq> [] \<and> base_url w = ''https://api.openai.com/v1'' \<and>
   headers w = [(''Authorization'', ''Bearer '' @ api_key w), (''Content-Type'', ''application/json'')]"
  by (auto simp: OpenAIWrapper_init_def Let_def split: if_splits option.splits)

lemma run_call_wrapper: "wrapper (snd (run_call net c s)) = wrapper s"
  by (cases c) (simp_all add: chat_completion_state create_image_state)

lemma run_calls_wrapper: "wrapper (run_calls net cs s) = wrapper s"
  by (induction cs arbitrary: s) (simp_all add: run_call_wrapper)

lemma test_wrapper_init: "OpenAIWrapper_init (environ_of []) (Some ''sk-test'') = Inr test_wrapper"
  by (simp add: init_Some test_wrapper_def)

section \<open>The request body of chat completion\<close>

text \<open>
  C1. Every chat completion call makes one POST request whose body has the fields
  \<^verbatim>\<open>model\<close>, \<^verbatim>\<open>messages\<close> and \<^verbatim>\<open>temperature\<close>, plus \<^verbatim>\<open>max_tokens\<close> only when a value was
  provided; the key is absent otherwise and never holds \<^verbatim>\<open>None\<close>. A positive
  \<^verbatim>\<open>max_tokens\<close> is in the body as given. The call with the one message of the user
  saying Hi and all defaults sends the three fields with \<^verbatim>\<open>gpt-3.5-turbo\<close> and 0.7.
\<close>
theorem chat_completion_body_fields:
  "requests_made s (snd (chat_completion net messages model temperature max_tokens s)) =
     [\<lparr>req_method = ''POST'',
       req_url = base_url (wrapper s) @ ''/chat/completions'',
       req_headers = headers (wrapper s),
       req_json = PDict (chat_payload messages model temperature max_tokens)\<rparr>]
   \<and> (keys (chat_payload messages model temperature max_tokens) =
         [''model'', ''messages'', ''temperature'']
       \<or> keys (chat_payload messages model temperature max_tokens) =
         [''model'', ''messages'', ''temperature'', ''max_tokens''])
   \<and> (''max_tokens'' \<in> set (keys (chat_payload messages model temperature max_tokens))
        \<longrightarrow> max_tokens \<noteq> None)
   \<and> getitem (chat_payload messages model temperature max_tokens) ''max_tokens'' \<noteq> Some PNone
   \<and> chat_payload messages model temperature None =
        [(''model'', PStr model), (''messages'', messages), (''temperature'', PFloat temperature)]
   \<and> (0 < n \<longrightarrow>
        chat_payload messages model temperature (Some n) =
          [(''model'', PStr model), (''messages'', messages), (''temperature'', PFloat temperature),
           (''max_tokens'', PInt n)])
   \<and> requests_made s
        (snd (chat_completion net (PList [message ''user'' ''Hi''])
                default_model default_temperature default_max_tokens s)) =
       [\<lparr>req_method = ''POST'',
         req_url = base_url (wrapper s) @ ''/chat/completions'',
         req_headers = headers (wrapper s),
         req_json = PDict [(''model'', PStr ''gpt-3.5-turbo''),
                           (''messages'', PList [PDict [(''role'', PStr ''user''),
                                                        (''content'', PStr ''Hi'')]]),
                           (''temperature'', PFloat 0.7)]\<rparr>]"
proof -
  have sent: "\<And>ms mo t mt. requests_made s (snd (chat_completion net ms mo t mt s)) =
     [\<lparr>req_method = ''POST'',
       req_url = base_url (wrapper s) @ ''/chat/completions'',
       req_headers = headers (wrapper s),
       req_json = PDict (chat_payload ms mo t mt)\<rparr>]"
    by (simp add: chat_completion_made chat_request_def)
  have ks: "keys (chat_payload messages model temperature max_tokens) =
         [''model'', ''messages'', ''temperature'']
       \<or> keys (chat_payload messages model temperature max_tokens) =
         [''model'', ''messages'', ''temperature'', ''max_tokens'']"
    by (cases max_tokens) (simp_all add: chat_payload_None chat_payload_Some keys_def)
  have only: "''max_tokens'' \<in> set (keys (chat_payload messages model temperature max_tokens))
        \<longrightarrow> max_tokens \<noteq> None"
    by (cases max_tokens) (simp_all add: chat_payload_None keys_def)
  have nonull: "getitem (chat_payload messages model temperature max_tokens) ''max_tokens'' \<noteq> Some PNone"
    by (cases max_tokens) (simp_all add: chat_payload_None chat_payload_Some getitem_def)
  have pos: "0 < n \<longrightarrow>
        chat_payload messages model temperature (Some n) =
          [(''model'', PStr model), (''messages'', messages), (''temperature'', PFloat temperature),
           (''max_tokens'', PInt n)]"
    by (simp add: chat_payload_Some)
  have ex: "chat_payload (PList [message ''user'' ''Hi'']) default_model default_temperature default_max_tokens
     = [(''model'', PStr ''gpt-3.5-turbo''),
                           (''messages'', PList [PDict [(''role'', PStr ''user''),
                                                        (''content'', PStr ''Hi'')]]),
                           (''temperature'', PFloat 0.7)]"
    by (simp add: chat_payload_None default_max_tokens_def default_model_def default_temperature_def message_def)
  show ?thesis
    using sent ks only nonull pos ex chat_payload_None by presburger
qed

theorem chat_completion_body_fields_witness:
  "(0::int) < 150
   \<and> chat_payload (PList [message ''user'' ''Hi'']) default_model default_temperature (Some 150) =
       [(''model'', PStr ''gpt-3.5-turbo''),
        (''messages'', PList [PDict [(''role'', PStr ''user''), (''content'', PStr ''Hi'')]]),
        (''temperature'', PFloat 0.7),
        (''max_tokens'', PInt 150)]
   \<and> ''max_tokens'' \<in> set (keys (chat_payload (PList [message ''user'' ''Hi''])
                                  default_model default_temperature (Some 150)))
   \<and> Some (150::int) \<noteq> None"
  using chat_completion_body_fields
    [where s = "fresh test_wrapper" and net = "always (reply chat_url 200 ''OK'' (Inr (PDict [])))"
       and messages = "PList [message ''user'' ''Hi'']" and model = default_model
       and temperature = default_temperature and max_tokens = "Some 150" and n = 150]
  by (simp add: default_model_def default_temperature_def message_def keys_def)

text \<open>
  C7. The \<^verbatim>\<open>messages\<close> field of the body sent by chat completion is the value that was
  passed, whatever it is: for a sequence of messages, the same list of the same dicts
  in the same order. The payload has no second \<^verbatim>\<open>messages\<close> entry.
\<close>

theorem chat_completion_messages_verbatim:
  "requests_made s (snd (chat_completion net messages model temperature max_tokens s)) =
     [\<lparr>req_method = ''POST'',
       req_url = base_url (wrapper s) @ ''/chat/completions'',
       req_headers = headers (wrapper s),
       req_json = PDict (chat_payload messages model temperature max_tokens)\<rparr>]
   \<and> getitem (chat_payload messages model temperature max_tokens) ''messages'' = Some messages
   \<and> filter (\<lambda>kv. fst kv = ''messages'') (chat_payload messages model temperature max_tokens) =
       [(''messages'', messages)]"
proof -
  have "getitem (chat_payload messages model temperature max_tokens) ''messages'' = Some messages"
    by (cases max_tokens) (simp_all add: chat_payload_None chat_payload_Some getitem_def)
  moreover have "filter (\<lambda>kv. fst kv = ''messages'')
       (chat_payload messages model temperature max_tokens) = [(''messages'', messages)]"
    by (cases max_tokens) (simp_all add: chat_payload_None chat_payload_Some)
  ultimately show ?thesis
    by (simp add: chat_completion_made chat_request_def)
qed

text \<open>
  C9. With \<^verbatim>\<open>max_tokens\<close> given as 0 the body sent by chat completion has no
  \<^verbatim>\<open>max_tokens\<close> key: the field is added when the value is truthy, not when it was
  supplied.
\<close>

theorem chat_completion_zero_max_tokens_omitted:
  "requests_made s (snd (chat_completion net messages model temperature (Some 0) s)) =
     [\<lparr>req_method = ''POST'',
       req_url = base_url (wrapper s) @ ''/chat/completions'',
       req_headers = headers (wrapper s),
       req_json = PDict [(''model'', PStr model), (''messages'', messages),
                         (''temperature'', PFloat temperature)]\<rparr>]
   \<and> ''max_tokens'' \<notin> set (keys (chat_payload messages model temperature (Some 0)))
   \<and> getitem (chat_payload messages model temperature (Some 0)) ''max_tokens'' = None"
  by (simp add: chat_completion_made chat_request_def chat_payload_Some keys_def getitem_def)

section \<open>The request body of image creation\<close>

text \<open>
  C2. Every \<^verbatim>\<open>create_image\<close> call makes one POST request whose body has the four fields
  \<^verbatim>\<open>prompt\<close>, \<^verbatim>\<open>size\<close>, \<^verbatim>\<open>n\<close> and \<^verbatim>\<open>response_format\<close>, with the defaults as with any
  other values, to the image generations endpoint under the base URL of the client;
  the call for a cat at 512x512, twice, as \<^verbatim>\<open>b64_json\<close> sends exactly these four values.
\<close>

theorem create_image_body_fields:
  "requests_made s (snd (create_image net prompt sz n rf s)) =
     [\<lparr>req_method = ''POST'',
       req_url = base_url (wrapper s) @ ''/images/generations'',
       req_headers = headers (wrapper s),
       req_json = PDict [(''prompt'', PStr prompt), (''size'', PStr sz), (''n'', PInt n),
                         (''response_format'', PStr rf)]\<rparr>]
   \<and> requests_made s
        (snd (create_image net prompt default_size default_n default_response_format s)) =
       [\<lparr>req_method = ''POST'',
         req_url = base_url (wrapper s) @ ''/images/generations'',
         req_headers = headers (wrapper s),
         req_json = PDict [(''prompt'', PStr prompt), (''size'', PStr ''1024x1024''),
                           (''n'', PInt 1), (''response_format'', PStr ''url'')]\<rparr>]
   \<and> map req_json (requests_made s (snd (create_image net ''A cat'' ''512x512'' 2 ''b64_json'' s))) =
       [PDict [(''prompt'', PStr ''A cat''), (''size'', PStr ''512x512''), (''n'', PInt 2),
               (''response_format'', PStr ''b64_json'')]]
   \<and> (OpenAIWrapper_init env a = Inr w \<longrightarrow>
        map req_url (requests_made (fresh w) (snd (create_image net prompt sz n rf (fresh w)))) =
          [''https://api.openai.com/v1/images/generations''])"
proof -
  have url: "OpenAIWrapper_init env a = Inr w \<longrightarrow>
        map req_url (requests_made (fresh w) (snd (create_image net prompt sz n rf (fresh w)))) =
          [''https://api.openai.com/v1/images/generations'']"
    using init_fields [of env a w]
    by (simp add: create_image_made image_request_def fresh_def)
  show ?thesis
    using url
    by (simp add: create_image_made image_request_def image_payload_def
          default_size_def default_n_def default_response_format_def)
qed

theorem create_image_body_fields_witness:
  "OpenAIWrapper_init (environ_of []) (Some ''sk-test'') = Inr test_wrapper
   \<and> map req_url (requests_made (fresh test_wrapper)
        (snd (create_image (always (reply image_url 200 ''OK'' (Inr (PDict []))))
               ''A cat'' ''512x512'' 2 ''b64_json'' (fresh test_wrapper)))) =
       [''https://api.openai.com/v1/images/generations'']"
  using create_image_body_fields
    [where env = "environ_of []" and a = "Some ''sk-test''" and w = test_wrapper
       and net = "always (reply image_url 200 ''OK'' (Inr (PDict [])))"
       and prompt = "''A cat''" and sz = "''512x512''" and n = 2 and rf = "''b64_json''"
       and s = "fresh test_wrapper"]
    test_wrapper_init
  by (simp add: fresh_def test_wrapper_def)

section \<open>Construction\<close>

text \<open>
  C4. Construction with no explicit credential, in an environment where the variable
  is unset or empty, raises the \<^verbatim>\<open>ValueError\<close> of the constructor; no client is returned.
\<close>

theorem init_without_credential_fails:
  "env ''OPENAI_API_KEY'' = None \<or> env ''OPENAI_API_KEY'' = Some [] \<Longrightarrow>
   OpenAIWrapper_init env None = Inl (ValueError missing_key_message)"
  by (auto simp: init_falsy)

theorem init_without_credential_fails_witness:
  "environ_of [] ''OPENAI_API_KEY'' = None
   \<and> OpenAIWrapper_init (environ_of []) None = Inl (ValueError missing_key_message)
   \<and> environ_of [(''OPENAI_API_KEY'', [])] ''OPENAI_API_KEY'' = Some []
   \<and> OpenAIWrapper_init (environ_of [(''OPENAI_API_KEY'', [])]) None =
       Inl (ValueError missing_key_message)"
  using init_without_credential_fails [of "environ_of []"]
        init_without_credential_fails [of "environ_of [(''OPENAI_API_KEY'', [])]"]
  by (simp add: environ_of_def)

text \<open>
  C5, amended. For every non-empty explicit credential, construction succeeds in any
  environment, and the stored credential and the bearer header are made from the
  explicit argument, not from the environment.
\<close>

theorem explicit_credential_takes_precedence:
  "k \<noteq> [] \<Longrightarrow>
   OpenAIWrapper_init env (Some k) =
     Inr \<lparr>api_key = k, base_url = ''https://api.openai.com/v1'',
          headers = [(''Authorization'', ''Bearer '' @ k),
                     (''Content-Type'', ''application/json'')]\<rparr>"
  by (rule init_Some)

theorem explicit_credential_takes_precedence_witness:
  "''sk-arg'' \<noteq> []
   \<and> OpenAIWrapper_init (environ_of [(''OPENAI_API_KEY'', ''sk-env'')]) (Some ''sk-arg'') =
       Inr \<lparr>api_key = ''sk-arg'', base_url = ''https://api.openai.com/v1'',
            headers = [(''Authorization'', ''Bearer sk-arg''),
                       (''Content-Type'', ''application/json'')]\<rparr>
   \<and> OpenAIWrapper_init (environ_of []) (Some ''sk-arg'') =
       Inr \<lparr>api_key = ''sk-arg'', base_url = ''https://api.openai.com/v1'',
            headers = [(''Authorization'', ''Bearer sk-arg''),
                       (''Content-Type'', ''application/json'')]\<rparr>"
  using explicit_credential_takes_precedence
          [of "''sk-arg''" "environ_of [(''OPENAI_API_KEY'', ''sk-env'')]"]
        explicit_credential_takes_precedence [of "''sk-arg''" "environ_of []"]
  by simp

text \<open>
  As first stated, for every explicit credential string, the property fails at the
  empty string: with the variable unset construction raises, and with the variable set
  the client holds the value of the environment.
\<close>

theorem empty_explicit_credential_counterexample:
  "OpenAIWrapper_init (environ_of []) (Some '''') = Inl (ValueError missing_key_message)
   \<and> OpenAIWrapper_init (environ_of [(''OPENAI_API_KEY'', ''sk-env'')]) (Some '''') =
       Inr \<lparr>api_key = ''sk-env'', base_url = ''https://api.openai.com/v1'',
            headers = [(''Authorization'', ''Bearer sk-env''),
                       (''Content-Type'', ''application/json'')]\<rparr>"
  by (simp add: init_falsy environ_of_def)

text \<open>
  C10. With the empty string as explicit credential and a non-empty value in the
  environment, construction succeeds and the client uses the value of the environment.
\<close>

theorem empty_explicit_credential_falls_back:
  "env ''OPENAI_API_KEY'' = Some v \<Longrightarrow> v \<noteq> [] \<Longrightarrow>
   OpenAIWrapper_init env (Some []) =
     Inr \<lparr>api_key = v, base_url = ''https://api.openai.com/v1'',
          headers = [(''Authorization'', ''Bearer '' @ v),
                     (''Content-Type'', ''application/json'')]\<rparr>"
  by (simp add: init_falsy)

theorem empty_explicit_credential_falls_back_witness:
  "environ_of [(''OPENAI_API_KEY'', ''sk-live'')] ''OPENAI_API_KEY'' = Some ''sk-live''
   \<and> ''sk-live'' \<noteq> []
   \<and> OpenAIWrapper_init (environ_of [(''OPENAI_API_KEY'', ''sk-live'')]) (Some []) =
       Inr \<lparr>api_key = ''sk-live'', base_url = ''https://api.openai.com/v1'',
            headers = [(''Authorization'', ''Bearer sk-live''),
                       (''Content-Type'', ''application/json'')]\<rparr>"
  using empty_explicit_credential_falls_back
          [of "environ_of [(''OPENAI_API_KEY'', ''sk-live'')]" "''sk-live''"]
  by (simp add: environ_of_def)

section \<open>Failures of a request\<close>

text \<open>
  C3, amended. When the request of a chat completion or image creation call fails in
  transport with an exception of the HTTP library, or is answered with a status from
  400 to 599 (401 or 500, say), the call raises the generic \<^verbatim>\<open>Exception\<close> whose text is
  \<^verbatim>\<open>API request failed: \<close> followed by the description of the cause, and returns no
  decoded value. A 4xx and a 5xx status raise the same kind of error; only the text
  differs.
\<close>

theorem error_status_or_transport_failure_raises:
  "(net (requests_sent s) (chat_request (wrapper s) messages model temperature max_tokens) = Inl e
      \<and> is_RequestException e
    \<longrightarrow> fst (chat_completion net messages model temperature max_tokens s) =
          Inl (Exception (''API request failed: '' @ exc_str e)))
   \<and> (net (requests_sent s) (chat_request (wrapper s) messages model temperature max_tokens) = Inr r
      \<and> 400 \<le> status_code r \<and> status_code r < 600
    \<longrightarrow> fst (chat_completion net messages model temperature max_tokens s) =
          Inl (Exception (''API request failed: '' @ str_int (status_code r)
                 @ (if status_code r < 500 then '' Client Error: '' else '' Server Error: '')
                 @ reason r @ '' for url: '' @ resp_url r)))
   \<and> (net (requests_sent s) (image_request (wrapper s) prompt sz n rf) = Inl e'
      \<and> is_RequestException e'
    \<longrightarrow> fst (create_image net prompt sz n rf s) =
          Inl (Exception (''API request failed: '' @ exc_str e')))
   \<and> (net (requests_sent s) (image_request (wrapper s) prompt sz n rf) = Inr r'
      \<and> 400 \<le> status_code r' \<and> status_code r' < 600
    \<longrightarrow> fst (create_image net prompt sz n rf s) =
          Inl (Exception (''API request failed: '' @ str_int (status_code r')
                 @ (if status_code r' < 500 then '' Client Error: '' else '' Server Error: '')
                 @ reason r' @ '' for url: '' @ resp_url r')))"
proof -
  have a: "net (requests_sent s) (chat_request (wrapper s) messages model temperature max_tokens) = Inl e
      \<and> is_RequestException e
    \<longrightarrow> fst (chat_completion net messages model temperature max_tokens s) =
          Inl (Exception (''API request failed: '' @ exc_str e))"
    by (simp add: chat_completion_result except_RequestException_def)
  have b: "net (requests_sent s) (chat_request (wrapper s) messages model temperature max_tokens) = Inr r
      \<and> 400 \<le> status_code r \<and> status_code r < 600
    \<longrightarrow> fst (chat_completion net messages model temperature max_tokens s) =
          Inl (Exception (''API request failed: '' @ str_int (status_code r)
                 @ (if status_code r < 500 then '' Client Error: '' else '' Server Error: '')
                 @ reason r @ '' for url: '' @ resp_url r))"
    by (simp add: chat_completion_result raise_for_status_error except_RequestException_def)
  have c: "net (requests_sent s) (image_request (wrapper s) prompt sz n rf) = Inl e'
      \<and> is_RequestException e'
    \<longrightarrow> fst (create_image net prompt sz n rf s) =
          Inl (Exception (''API request failed: '' @ exc_str e'))"
    by (simp add: create_image_result except_RequestException_def)
  have d: "net (requests_sent s) (image_request (wrapper s) prompt sz n rf) = Inr r'
      \<and> 400 \<le> status_code r' \<and> status_code r' < 600
    \<longrightarrow> fst (create_image net prompt sz n rf s) =
          Inl (Exception (''API request failed: '' @ str_int (status_code r')
                 @ (if status_code r' < 500 then '' Client Error: '' else '' Server Error: '')
                 @ reason r' @ '' for url: '' @ resp_url r'))"
    by (simp add: create_image_result raise_for_status_error except_RequestException_def)
  from a b c d show ?thesis by blast
qed


theorem error_status_or_transport_failure_raises_witness:
  "is_RequestException (Raised ConnectionError ''Connection refused'')
   \<and> fst (chat_completion (always (Inl (Raised ConnectionError ''Connection refused'')))
            (PList [message ''user'' ''Hi'']) default_model default_temperature default_max_tokens
            (fresh test_wrapper)) =
       Inl (Exception ''API request failed: Connection refused'')
   \<and> fst (chat_completion (always (reply chat_url 401 ''Unauthorized'' (Inr (PDict []))))
            (PList [message ''user'' ''Hi'']) default_model default_temperature default_max_tokens
            (fresh test_wrapper)) =
       Inl (Exception (''API request failed: 401 Client Error: Unauthorized for url: '' @ chat_url))
   \<and> is_RequestException (Raised Timeout ''Read timed out.'')
   \<and> fst (create_image (always (Inl (Raised Timeout ''Read timed out.'')))
            ''A cat'' default_size default_n default_response_format (fresh test_wrapper)) =
       Inl (Exception ''API request failed: Read timed out.'')
   \<and> fst (create_image (always (reply image_url 500 ''Internal Server Error'' (Inr (PDict []))))
            ''A cat'' default_size default_n default_response_format (fresh test_wrapper)) =
       Inl (Exception
         (''API request failed: 500 Server Error: Internal Server Error for url: '' @ image_url))"
  using error_status_or_transport_failure_raises
          [where net = "always (Inl (Raised ConnectionError ''Connection refused''))"
             and s = "fresh test_wrapper" and messages = "PList [message ''user'' ''Hi'']"
             and model = default_model and temperature = default_temperature
             and max_tokens = default_max_tokens
             and e = "Raised ConnectionError ''Connection refused''"]
        error_status_or_transport_failure_raises
          [where net = "always (reply chat_url 401 ''Unauthorized'' (Inr (PDict [])))"
             and s = "fresh test_wrapper" and messages = "PList [message ''user'' ''Hi'']"
             and model = default_model and temperature = default_temperature
             and max_tokens = default_max_tokens
             and r = "\<lparr>status_code = 401, reason = ''Unauthorized'', resp_url = chat_url,
                        valid_json = True, json_loads = Loaded (PDict []),
                        lib_version = From_2_27\<rparr>"]
        error_status_or_transport_failure_raises
          [where net = "always (Inl (Raised Timeout ''Read timed out.''))"
             and s = "fresh test_wrapper" and prompt = "''A cat''" and sz = default_size
             and n = default_n and rf = default_response_format
             and e' = "Raised Timeout ''Read timed out.''"]
        error_status_or_transport_failure_raises
          [where net = "always (reply image_url 500 ''Internal Server Error'' (Inr (PDict [])))"
             and s = "fresh test_wrapper" and prompt = "''A cat''" and sz = default_size
             and n = default_n and rf = default_response_format
             and r' = "\<lparr>status_code = 500, reason = ''Internal Server Error'', resp_url = image_url,
                         valid_json = True, json_loads = Loaded (PDict []),
                         lib_version = From_2_27\<rparr>"]
  by (simp add: always_def reply_def reply_with_def str_int_def str_nat.simps digit_char_def)

text \<open>
  As first stated, for every status outside 200 to 299, the property fails: the status
  check of the library raises from 400 to 599 only, so a final response with status 300
  and a JSON body is decoded and returned by both operations.
\<close>

theorem redirect_status_returns_value_counterexample:
  "fst (chat_completion (always (reply chat_url 300 ''Multiple Choices'' (Inr (PDict []))))
          (PList [message ''user'' ''Hi'']) default_model default_temperature default_max_tokens
          (fresh test_wrapper)) = Inr (PDict [])
   \<and> fst (create_image (always (reply image_url 300 ''Multiple Choices'' (Inr (PDict []))))
          ''A cat'' default_size default_n default_response_format (fresh test_wrapper)) =
       Inr (PDict [])"
  by (simp add: chat_completion_result create_image_result always_def reply_def reply_with_def
        raise_for_status_def response_json_def)




section \<open>The client is never modified\<close>

text \<open>
  C8. Neither operation changes the client: after a call, whatever its outcome, and
  after any sequence of calls, the credential, the base URL and the two headers are
  those fixed at construction.
\<close>

theorem calls_leave_client_unchanged:
  "wrapper (snd (chat_completion net messages model temperature max_tokens s)) = wrapper s
   \<and> wrapper (snd (create_image net prompt sz n rf s)) = wrapper s
   \<and> wrapper (run_calls net cs s) = wrapper s
   \<and> (OpenAIWrapper_init env a = Inr w \<longrightarrow>
        wrapper (run_calls net cs (fresh w)) = w
        \<and> api_key (wrapper (run_calls net cs (fresh w))) = api_key w
        \<and> base_url (wrapper (run_calls net cs (fresh w))) = ''https://api.openai.com/v1''
        \<and> headers (wrapper (run_calls net cs (fresh w))) =
            [(''Authorization'', ''Bearer '' @ api_key w),
             (''Content-Type'', ''application/json'')])"
  using init_fields [of env a w]
  by (simp add: chat_completion_state create_image_state run_calls_wrapper fresh_def)

theorem calls_leave_client_unchanged_witness:
  "OpenAIWrapper_init (environ_of []) (Some ''sk-test'') = Inr test_wrapper
   \<and> wrapper (run_calls (always (reply chat_url 500 ''Internal Server Error'' (Inr PNone)))
        [ChatCompletion (PList [message ''user'' ''Hi'']) default_model default_temperature (Some 150),
         CreateImage ''A cat'' ''512x512'' 2 ''b64_json'']
        (fresh test_wrapper)) = test_wrapper"
  using calls_leave_client_unchanged
          [where env = "environ_of []" and a = "Some ''sk-test''" and w = test_wrapper
             and net = "always (reply chat_url 500 ''Internal Server Error'' (Inr PNone))"
             and cs = "[ChatCompletion (PList [message ''user'' ''Hi'']) default_model
                          default_temperature (Some 150),
                        CreateImage ''A cat'' ''512x512'' 2 ''b64_json'']"
             and s = "fresh test_wrapper"
             and messages = "PList [message ''user'' ''Hi'']" and model = default_model
             and temperature = default_temperature and max_tokens = "Some 150"
             and prompt = "''A cat''" and sz = "''512x512''" and n = 2 and rf = "''b64_json''"]
        test_wrapper_init
  by (simp add: fresh_def)

end
